theory Spec2Isabelle
  imports Main
begin

section \<open>Python values, exceptions and strings\<close>

text \<open>
  Exceptions are values: \<open>NameError\<close> and \<open>AttributeError\<close> are the two that the
  interpreter raises inside \<^verbatim>\<open>app.py\<close> itself, \<open>KeyError\<close> is a failed dictionary
  subscript, and \<open>LibraryError\<close> stands for any exception raised inside a collaborator
  that \<^verbatim>\<open>app.py\<close> imports (the datastore, the password context, the database driver).
\<close>

datatype error =
    NameError string
  | AttributeError string string
  | KeyError string
  | LibraryError string

text \<open>
  A string is a list of characters with code points below 256. \<open>isspace\<close> lists the
  code points in that range for which Python's \<^verbatim>\<open>str.isspace\<close> is true; \<open>strip\<close> is
  \<^verbatim>\<open>str.strip()\<close> with no argument.
\<close>

definition isspace :: "char \<Rightarrow> bool" where
  "isspace c = ((of_char c :: nat) \<in> {9, 10, 11, 12, 13, 28, 29, 30, 31, 32, 133, 160})"

definition strip :: "string \<Rightarrow> string" where
  "strip s = rev (dropWhile isspace (rev (dropWhile isspace s)))"

section \<open>The user model (app.py, lines 85 to 100)\<close>

text \<open>
  \<^verbatim>\<open>class User(db.Model, UserMixin)\<close> declares five columns. Every column but the
  primary key is nullable, so its Python value is \<^verbatim>\<open>None\<close> or a value of the column type.
\<close>

record User =
  user_id :: int
  username :: "string option"
  password :: "string option"
  email :: "string option"
  active :: "bool option"

text \<open>
  The attributes that an instance of \<open>User\<close> answers to: the columns, the relationship
  \<^verbatim>\<open>roles\<close> and the two methods that \<^verbatim>\<open>app.py\<close> declares, and those it inherits from
  \<^verbatim>\<open>UserMixin\<close> (among them \<^verbatim>\<open>is_active\<close>, a property returning \<^verbatim>\<open>self.active\<close>) and from
  \<^verbatim>\<open>db.Model\<close>. Reading any other attribute raises \<^verbatim>\<open>AttributeError\<close>. The column
  \<^verbatim>\<open>confirmed_at\<close> is commented out (line 92), so it is not among them, and neither is
  \<^verbatim>\<open>errors\<close>, which only form fields have.
\<close>

definition User_attributes :: "string list" where
  "User_attributes =
     [''id'', ''username'', ''password'', ''email'', ''active'', ''roles'',
      ''hash_password'', ''verify_password'', ''is_active'', ''is_authenticated'',
      ''is_anonymous'', ''get_id'', ''get_auth_token'', ''has_role'', ''query'',
      ''metadata'']"

definition User_getattr :: "string \<Rightarrow> error + unit" where
  "User_getattr name =
     (if name \<in> set User_attributes then Inr () else Inl (AttributeError ''User'' name))"

definition is_active :: "User \<Rightarrow> bool option" where
  "is_active u = active u"

text \<open>
  Reading \<^verbatim>\<open>user.confirmed_at\<close>: were the column declared, it would hold \<^verbatim>\<open>None\<close> until
  the account is confirmed.
\<close>

definition confirmed_at :: "User \<Rightarrow> error + int option" where
  "confirmed_at u = (case User_getattr ''confirmed_at'' of Inl e \<Rightarrow> Inl e | Inr _ \<Rightarrow> Inr None)"

text \<open>Python truth of a nullable string (\<^verbatim>\<open>not self.user.password\<close>) and of a nullable boolean.\<close>

definition truthy_str :: "string option \<Rightarrow> bool" where
  "truthy_str v = (case v of None \<Rightarrow> False | Some s \<Rightarrow> s \<noteq> [])"

definition truthy_bool :: "bool option \<Rightarrow> bool" where
  "truthy_bool v = (case v of None \<Rightarrow> False | Some b \<Rightarrow> b)"

section \<open>The login form (app.py, lines 132 to 181)\<close>

text \<open>
  The state of an \<^verbatim>\<open>extendedLoginForm\<close> that \<^verbatim>\<open>validate\<close> reads or writes: the submitted
  data of the \<^verbatim>\<open>username\<close> and \<^verbatim>\<open>password\<close> fields, the error lists of these two fields,
  the error lists of the remaining fields inherited from \<^verbatim>\<open>LoginForm\<close> (by field name),
  and the attribute \<^verbatim>\<open>self.user\<close>, which is \<open>None\<close> until a lookup assigns it.
\<close>

record extendedLoginForm =
  username_data :: string
  password_data :: string
  username_errors :: "string list"
  password_errors :: "string list"
  inherited_errors :: "(string \<times> string list) list"
  user :: "User option"

text \<open>
  What \<^verbatim>\<open>validate\<close> calls but \<^verbatim>\<open>app.py\<close> does not define is a parameter:
  \<^item> \<open>password_validators\<close>: the messages that the validators which \<^verbatim>\<open>LoginForm\<close>
    attaches to \<^verbatim>\<open>password\<close> raise for the submitted secret;
  \<^item> \<open>inherited_validators\<close>: the messages that the validators of the other inherited
    fields raise for this submission, by field name;
  \<^item> \<open>get_user\<close>: \<^verbatim>\<open>security.datastore.get_user\<close>, which may raise instead of returning;
  \<^item> \<open>verify_and_update_password\<close>: the function of that name from
    \<^verbatim>\<open>flask_security.utils\<close>; it answers whether the password verifies, or raises, and
    before that it may have replaced \<^verbatim>\<open>user.password\<close> by a fresh hash, so the model
    returns the answer together with the user object as the call leaves it;
  \<^item> \<open>confirmable\<close> and \<open>login_without_confirmation\<close>: the two settings of the security
    extension (\<^verbatim>\<open>SECURITY_CONFIRMABLE\<close>, \<^verbatim>\<open>SECURITY_LOGIN_WITHOUT_CONFIRMATION\<close>) that
    \<^verbatim>\<open>requires_confirmation\<close> reads; the configuration object is not part of \<^verbatim>\<open>app.py\<close>.
\<close>

record collaborators =
  password_validators :: "string \<Rightarrow> string list"
  inherited_validators :: "(string \<times> string list) list"
  get_user :: "string \<Rightarrow> error + User option"
  verify_and_update_password :: "string \<Rightarrow> User \<Rightarrow> (error + bool) \<times> User"
  confirmable :: bool
  login_without_confirmation :: bool

text \<open>
  \<^verbatim>\<open>requires_confirmation\<close> from \<^verbatim>\<open>flask_security.confirmable\<close>: confirmation is enabled,
  login without confirmation is not allowed, and \<^verbatim>\<open>user.confirmed_at is None\<close>, evaluated
  from left to right. The third operand is the only one that reads the user.
\<close>

definition requires_confirmation :: "collaborators \<Rightarrow> User \<Rightarrow> error + bool" where
  "requires_confirmation env u =
     (if \<not> confirmable env then Inr False
      else if login_without_confirmation env then Inr False
      else (case confirmed_at u of Inl e \<Rightarrow> Inl e | Inr stamp \<Rightarrow> Inr (stamp = None)))"

text \<open>
  \<^verbatim>\<open>Required()\<close>, the one validator that \<^verbatim>\<open>app.py\<close> attaches (line 133): it rejects data
  that is empty or only whitespace, replacing the field's errors by its message.
\<close>

definition Required :: "string \<Rightarrow> string list" where
  "Required data = (if data = [] \<or> strip data = [] then [''This field is required.''] else [])"

text \<open>
  \<^verbatim>\<open>super(LoginForm, self).validate()\<close> (line 137): the form library's \<^verbatim>\<open>validate\<close>. It
  resets the error list of every field to what the field's validators raise, and
  succeeds when no field has an error.
\<close>

definition run_validators :: "collaborators \<Rightarrow> extendedLoginForm \<Rightarrow> extendedLoginForm" where
  "run_validators env self =
     self\<lparr>username_errors := Required (username_data self),
          password_errors := password_validators env (password_data self),
          inherited_errors := inherited_validators env\<rparr>"

definition no_errors :: "extendedLoginForm \<Rightarrow> bool" where
  "no_errors self =
     (username_errors self = [] \<and> password_errors self = [] \<and>
      list_all (\<lambda>(field, messages). messages = []) (inherited_errors self))"

text \<open>
  The form's mapping from field name to messages (the library's \<^verbatim>\<open>form.errors\<close>): one
  entry for each field that carries at least one message.
\<close>

definition fieldErrors :: "extendedLoginForm \<Rightarrow> (string \<times> string list) list" where
  "fieldErrors self =
     filter (\<lambda>(field, messages). messages \<noteq> [])
       ((''username'', username_errors self) # (''password'', password_errors self) #
        inherited_errors self)"

text \<open>
  One entry of the trace of a run: a check of \<^verbatim>\<open>validate\<close> that was evaluated, in the
  order of the source. A check that calls a collaborator carries the arguments of the
  call; a check that reads the user carries the user object it reads.
\<close>

datatype step =
    Field_Validators
  | Identifier_Presence
  | Secret_Presence
  | Identity_Resolution string
  | Secret_Hash_Presence User
  | Secret_Verification string User
  | Confirmation_Gate User
  | Activation_Gate User

text \<open>
  A run of \<^verbatim>\<open>validate\<close>: what it returned (\<open>Inr\<close>) or raised (\<open>Inl\<close>), the form as it
  leaves it, and the checks it evaluated.
\<close>

record run =
  outcome :: "error + bool"
  form_after :: extendedLoginForm
  steps :: "step list"

definition username_error :: "extendedLoginForm \<Rightarrow> string \<Rightarrow> extendedLoginForm" where
  "username_error self msg = self\<lparr>username_errors := username_errors self @ [msg]\<rparr>"

definition password_error :: "extendedLoginForm \<Rightarrow> string \<Rightarrow> extendedLoginForm" where
  "password_error self msg = self\<lparr>password_errors := password_errors self @ [msg]\<rparr>"

text \<open>
  Lines 170 to 181, entered with the verified user \<open>u\<close>. Line 171 calls
  \<^verbatim>\<open>requires_confirmation\<close>, which may raise. Line 172 reads \<^verbatim>\<open>self.user.errors\<close>: an
  attribute of the \<open>User\<close> object, not of a form field, so that statement would raise
  before it appends or returns.
\<close>

definition gates :: "collaborators \<Rightarrow> extendedLoginForm \<Rightarrow> step list \<Rightarrow> User \<Rightarrow> run" where
  "gates env self t u =
     (let t6 = t @ [Confirmation_Gate u] in
      case requires_confirmation env u of
        Inl e \<Rightarrow> \<lparr>outcome = Inl e, form_after = self, steps = t6\<rparr>
      | Inr required \<Rightarrow>
          if required then
            (case User_getattr ''errors'' of
               Inl e \<Rightarrow> \<lparr>outcome = Inl e, form_after = self, steps = t6\<rparr>
             | Inr _ \<Rightarrow> \<lparr>outcome = Inr False, form_after = self, steps = t6\<rparr>)
          else
            let t7 = t6 @ [Activation_Gate u] in
            if \<not> truthy_bool (is_active u) then
              \<lparr>outcome = Inr False, form_after = username_error self ''DISABLED ACCOUNT'',
               steps = t7\<rparr>
            else \<lparr>outcome = Inr True, form_after = self, steps = t7\<rparr>)"

text \<open>
  Lines 160 to 168, entered with the user \<open>u\<close> that the lookup returned. The user is one
  object, shared with the form: what \<open>verify_and_update_password\<close> does to it shows in
  \<^verbatim>\<open>self.user\<close>, also when the call raises.
\<close>

definition password_checks ::
    "collaborators \<Rightarrow> extendedLoginForm \<Rightarrow> step list \<Rightarrow> User \<Rightarrow> run" where
  "password_checks env self t u =
     (let t4 = t @ [Secret_Hash_Presence u] in
      if \<not> truthy_str (password u) then
        \<lparr>outcome = Inr False, form_after = password_error self ''PASSWORD WAS NOT SET'',
         steps = t4\<rparr>
      else
        let t5 = t4 @ [Secret_Verification (password_data self) u] in
        case verify_and_update_password env (password_data self) u of
          (answer, u') \<Rightarrow>
            let self' = self\<lparr>user := Some u'\<rparr> in
            (case answer of
               Inl e \<Rightarrow> \<lparr>outcome = Inl e, form_after = self', steps = t5\<rparr>
             | Inr verified \<Rightarrow>
                 if \<not> verified then
                   \<lparr>outcome = Inr False,
                    form_after = password_error self' ''INCORRECT USERNAME/PASSWORD'',
                    steps = t5\<rparr>
                 else gates env self' t5 u'))"

text \<open>The whole of \<^verbatim>\<open>extendedLoginForm.validate\<close>, lines 136 to 181.\<close>

definition validate :: "collaborators \<Rightarrow> extendedLoginForm \<Rightarrow> run" where
  "validate env self0 =
     (let self = run_validators env self0; t0 = [Field_Validators] in
      if \<not> no_errors self then \<lparr>outcome = Inr False, form_after = self, steps = t0\<rparr>
      else
        let t1 = t0 @ [Identifier_Presence] in
        if strip (username_data self) = [] then
          \<lparr>outcome = Inr False, form_after = username_error self ''USERNAME NOT PROVIDED'',
           steps = t1\<rparr>
        else
          let t2 = t1 @ [Secret_Presence] in
          if strip (password_data self) = [] then
            \<lparr>outcome = Inr False, form_after = password_error self ''PASSWORD NOT PROVIDED'',
             steps = t2\<rparr>
          else
            let t3 = t2 @ [Identity_Resolution (username_data self)] in
            case get_user env (username_data self) of
              Inl e \<Rightarrow> \<lparr>outcome = Inl e, form_after = self, steps = t3\<rparr>
            | Inr found \<Rightarrow>
                let self' = self\<lparr>user := found\<rparr> in
                (case found of
                   None \<Rightarrow>
                     \<lparr>outcome = Inr False,
                      form_after = username_error self' ''INCORRECT USERNAME/PASSWORD'',
                      steps = t3\<rparr>
                 | Some u \<Rightarrow> password_checks env self' t3 u))"

section \<open>Reading the trace\<close>

text \<open>The entries of a trace that are lookups, and those that are verifications.\<close>

fun is_lookup :: "step \<Rightarrow> bool" where
  "is_lookup (Identity_Resolution name) = True"
| "is_lookup s = False"

fun is_verification :: "step \<Rightarrow> bool" where
  "is_verification (Secret_Verification secret u) = True"
| "is_verification s = False"

section \<open>A directory to run the form against\<close>

text \<open>
  The scenario of the specification: \<open>alice\<close> is active, \<open>carol\<close> is disabled, both have the
  password \<^verbatim>\<open>correct-pw\<close>, \<open>dave\<close> never set a password, confirmation is not enabled,
  and no inherited validator complains.
\<close>

definition alice :: User where
  "alice = \<lparr>user_id = 1, username = Some ''alice'', password = Some ''$2b$12$stored'',
            email = Some ''alice@example.org'', active = Some True\<rparr>"

definition carol :: User where
  "carol = \<lparr>user_id = 2, username = Some ''carol'', password = Some ''$2b$12$stored'',
            email = Some ''carol@example.org'', active = Some False\<rparr>"

definition dave :: User where
  "dave = \<lparr>user_id = 3, username = Some ''dave'', password = None,
           email = Some ''dave@example.org'', active = Some True\<rparr>"

definition directory :: collaborators where
  "directory =
     \<lparr>password_validators = (\<lambda>secret. []),
      inherited_validators = [],
      get_user = (\<lambda>name. Inr (if name = ''alice'' then Some alice
                                else if name = ''carol'' then Some carol
                                else if name = ''dave'' then Some dave else None)),
      verify_and_update_password = (\<lambda>secret u. (Inr (secret = ''correct-pw''), u)),
      confirmable = False,
      login_without_confirmation = False\<rparr>"

text \<open>The same directory with stored hashes that are outdated: a match rehashes.\<close>

definition outdated :: collaborators where
  "outdated =
     directory\<lparr>verify_and_update_password :=
       (\<lambda>secret u. (Inr (secret = ''correct-pw''),
                     if secret = ''correct-pw'' then u\<lparr>password := Some ''$2b$13$fresh''\<rparr>
                     else u))\<rparr>"

text \<open>
  The same directory when storing the fresh hash raises, after the hash was replaced on
  the user object.
\<close>

definition store_fails :: collaborators where
  "store_fails =
     directory\<lparr>verify_and_update_password :=
       (\<lambda>secret u. (Inl (LibraryError ''put''), u\<lparr>password := Some ''$2b$13$fresh''\<rparr>))\<rparr>"

text \<open>The same directory when confirmation is enabled.\<close>

definition confirming :: collaborators where
  "confirming = directory\<lparr>confirmable := True\<rparr>"


text \<open>The same directory when the lookup of one identifier raises.\<close>

definition lookup_down :: "string \<Rightarrow> collaborators" where
  "lookup_down name =
     directory\<lparr>get_user := (\<lambda>n. if n = name then Inl (LibraryError ''connection'')
                                else get_user directory n)\<rparr>"

text \<open>A freshly submitted form.\<close>

definition login :: "string \<Rightarrow> string \<Rightarrow> extendedLoginForm" where
  "login name secret =
     \<lparr>username_data = name, password_data = secret, username_errors = [],
      password_errors = [], inherited_errors = [], user = None\<rparr>"

section \<open>Querying (app.py, lines 109 to 124)\<close>

text \<open>
  The names that \<^verbatim>\<open>app.py\<close> binds at module level, by \<^verbatim>\<open>import\<close>, assignment, \<^verbatim>\<open>def\<close>
  and \<^verbatim>\<open>class\<close>, in the order of the file. A name that a function body reads and never
  assigns is looked up here (Python's builtins hold none of the names in question).
\<close>

definition module_globals :: "string list" where
  "module_globals =
     [''Flask'', ''request'', ''redirect'', ''url_for'', ''render_template'', ''session'',
      ''escape'', ''g'', ''Form'', ''BooleanField'', ''StringField'', ''PasswordField'',
      ''validators'', ''Required'', ''app'', ''customconfig'', ''SQLAlchemy'', ''psycopg2'',
      ''db'', ''flask_table'', ''Table'', ''Col'', ''DebugToolbarExtension'', ''toolbar'',
      ''Security'', ''SQLAlchemyUserDatastore'', ''UserMixin'', ''RoleMixin'',
      ''login_required'', ''RegisterForm'', ''LoginForm'', ''verify_and_update_password'',
      ''get_message'', ''validate_redirect_url'', ''requires_confirmation'',
      ''bcrypt_sha256'', ''click'', ''Decimal'', ''datagenerator'', ''query'',
      ''roles_users'', ''UserRole'', ''User'', ''get_db'', ''run_query'',
      ''extendedLoginForm'', ''extendedRegisterForm'', ''user_datastore'', ''security'',
      ''dont_send_mail_hack'', ''security_register_processor'', ''create_admin'',
      ''initdb'', ''dbusertest'', ''FloatField'', ''IntegerField'', ''SelectField'',
      ''SubmitField'', ''EmpCreate'', ''profile'', ''index'', ''UsersTable'',
      ''users_page'', ''StoresTable'', ''stores_page'', ''EmpTable'', ''createEmployee'',
      ''employees_page'', ''ProductsTable'', ''products_page'', ''redir'',
      ''acknowledgements'']"

definition load_global :: "string \<Rightarrow> error + unit" where
  "load_global name = (if name \<in> set module_globals then Inr () else Inl (NameError name))"

text \<open>The values that travel through \<^verbatim>\<open>run_query\<close>: request arguments and database cells.\<close>

datatype pyvalue = PyNone | PyStr string | PyInt int | PyDecimal int int

fun truthy :: "pyvalue \<Rightarrow> bool" where
  "truthy PyNone = False"
| "truthy (PyStr s) = (s \<noteq> [])"
| "truthy (PyInt n) = (n \<noteq> 0)"
| "truthy (PyDecimal coefficient exponent) = (coefficient \<noteq> 0)"

fun is_Decimal :: "pyvalue \<Rightarrow> bool" where
  "is_Decimal (PyDecimal coefficient exponent) = True"
| "is_Decimal v = False"

text \<open>
  What \<^verbatim>\<open>run_query\<close> would use: calling the object bound to a module-level name (for
  \<^verbatim>\<open>get_db\<close>, opening a connection), the dictionary \<^verbatim>\<open>query.queries\<close>, executing a
  statement (the column names of \<^verbatim>\<open>cur.description\<close> and the fetched rows), and the
  format \<^verbatim>\<open>{:.2f}\<close>.
\<close>

record database =
  call_global :: "string \<Rightarrow> error + unit"
  queries :: "string \<rightharpoonup> string"
  execute :: "string \<Rightarrow> (string \<times> pyvalue) list \<Rightarrow> error + string list \<times> pyvalue list list"
  format_2f :: "pyvalue \<Rightarrow> string"

definition run_query ::
    "database \<Rightarrow> string \<Rightarrow> (string \<times> pyvalue) list \<Rightarrow> error + string list \<times> pyvalue list list"
    where
  "run_query dbase query_type args0 =
     (let args = map (\<lambda>(k, v). (k, if truthy v then v else PyNone)) args0 in
      case load_global ''getdb'' of
        Inl e \<Rightarrow> Inl e
      | Inr _ \<Rightarrow>
          (case call_global dbase ''getdb'' of
             Inl e \<Rightarrow> Inl e
           | Inr conn \<Rightarrow>
               (case queries dbase query_type of
                  None \<Rightarrow> Inl (KeyError query_type)
                | Some statement \<Rightarrow>
                    (case execute dbase statement args of
                       Inl e \<Rightarrow> Inl e
                     | Inr (columns, fetched) \<Rightarrow>
                         Inr (columns,
                              map (map (\<lambda>value. if is_Decimal value
                                                 then PyStr (format_2f dbase value)
                                                 else value)) fetched)))))"

section \<open>Stripping and the exits of validate\<close>

text \<open>
  A string strips to nothing exactly when all of its characters are whitespace.
\<close>

lemma strip_empty_iff: "strip s = [] \<longleftrightarrow> (\<forall>c\<in>set s. isspace c)"
proof
  assume a: "strip s = []"
  then have "dropWhile isspace (rev (dropWhile isspace s)) = []"
    by (simp add: strip_def)
  then have b: "\<forall>c\<in>set (dropWhile isspace s). isspace c"
    by simp
  have "dropWhile isspace s = []"
  proof (rule ccontr)
    assume n: "dropWhile isspace s \<noteq> []"
    then have "\<not> isspace (hd (dropWhile isspace s))" by (rule hd_dropWhile)
    moreover have "hd (dropWhile isspace s) \<in> set (dropWhile isspace s)" using n by simp
    ultimately show False using b by blast
  qed
  then show "\<forall>c\<in>set s. isspace c" by simp
next
  assume "\<forall>c\<in>set s. isspace c"
  then have d: "dropWhile isspace s = []" by simp
  show "strip s = []" unfolding strip_def d by simp
qed

text \<open>
  The definitions that make up \<^verbatim>\<open>validate\<close>, and those of the example directory.
\<close>

lemmas validate_defs = validate_def password_checks_def gates_def run_validators_def no_errors_def
  username_error_def password_error_def Required_def requires_confirmation_def
  confirmed_at_def User_getattr_def User_attributes_def truthy_str_def truthy_bool_def
  is_active_def

lemmas fixture_defs = directory_def login_def alice_def carol_def dave_def strip_def isspace_def

text \<open>
  The field validators leave the submitted data and \<^verbatim>\<open>self.user\<close> alone, and a form that
  passes them has an identifier that does not strip to nothing.
\<close>

lemma run_validators_data [simp]:
  "username_data (run_validators env self) = username_data self"
  "password_data (run_validators env self) = password_data self"
  "user (run_validators env self) = user self"
  by (simp_all add: run_validators_def)

lemma no_errors_identifier:
  "no_errors (run_validators env self) \<Longrightarrow> strip (username_data self) \<noteq> []"
  by (auto simp add: no_errors_def run_validators_def Required_def split: if_splits)

text \<open>
  \<^verbatim>\<open>requires_confirmation\<close> answers \<open>False\<close>, or raises on the missing column: for a
  \<open>User\<close> of this program it never answers \<open>True\<close>, so line 172 is not reached.
\<close>

lemma requires_confirmation_answers:
  "requires_confirmation env u =
     (if confirmable env \<and> \<not> login_without_confirmation env
      then Inl (AttributeError ''User'' ''confirmed_at'') else Inr False)"
  by (simp add: requires_confirmation_def confirmed_at_def User_getattr_def
      User_attributes_def)

lemma requires_confirmation_never_True: "requires_confirmation env u \<noteq> Inr True"
  by (simp add: requires_confirmation_answers)

text \<open>
  The exits of lines 170 to 181.
\<close>

lemma gates_raises:
  "requires_confirmation env u = Inl e \<Longrightarrow>
     gates env self t u = \<lparr>outcome = Inl e, form_after = self, steps = t @ [Confirmation_Gate u]\<rparr>"
  by (simp add: gates_def)

lemma gates_disabled:
  "requires_confirmation env u = Inr False \<Longrightarrow> \<not> truthy_bool (is_active u) \<Longrightarrow>
     gates env self t u =
       \<lparr>outcome = Inr False, form_after = username_error self ''DISABLED ACCOUNT'',
        steps = t @ [Confirmation_Gate u, Activation_Gate u]\<rparr>"
  by (simp add: gates_def)

lemma gates_active:
  "requires_confirmation env u = Inr False \<Longrightarrow> truthy_bool (is_active u) \<Longrightarrow>
     gates env self t u =
       \<lparr>outcome = Inr True, form_after = self,
        steps = t @ [Confirmation_Gate u, Activation_Gate u]\<rparr>"
  by (simp add: gates_def)

text \<open>
  The exits of lines 160 to 168, and the way on to the gates.
\<close>

lemma password_checks_unset:
  "\<not> truthy_str (password u) \<Longrightarrow>
     password_checks env self t u =
       \<lparr>outcome = Inr False, form_after = password_error self ''PASSWORD WAS NOT SET'',
        steps = t @ [Secret_Hash_Presence u]\<rparr>"
  by (simp add: password_checks_def)

lemma password_checks_raises:
  "truthy_str (password u) \<Longrightarrow>
   verify_and_update_password env (password_data self) u = (Inl e, u') \<Longrightarrow>
     password_checks env self t u =
       \<lparr>outcome = Inl e, form_after = self\<lparr>user := Some u'\<rparr>,
        steps = t @ [Secret_Hash_Presence u, Secret_Verification (password_data self) u]\<rparr>"
  by (simp add: password_checks_def)

lemma password_checks_wrong:
  "truthy_str (password u) \<Longrightarrow>
   verify_and_update_password env (password_data self) u = (Inr False, u') \<Longrightarrow>
     password_checks env self t u =
       \<lparr>outcome = Inr False,
        form_after = password_error (self\<lparr>user := Some u'\<rparr>) ''INCORRECT USERNAME/PASSWORD'',
        steps = t @ [Secret_Hash_Presence u, Secret_Verification (password_data self) u]\<rparr>"
  by (simp add: password_checks_def)

lemma password_checks_verified:
  "truthy_str (password u) \<Longrightarrow>
   verify_and_update_password env (password_data self) u = (Inr True, u') \<Longrightarrow>
     password_checks env self t u =
       gates env (self\<lparr>user := Some u'\<rparr>)
         (t @ [Secret_Hash_Presence u, Secret_Verification (password_data self) u]) u'"
  by (simp add: password_checks_def)

text \<open>
  The exits of lines 136 to 158, and the way on to the password checks.
\<close>

lemma validate_invalid:
  "\<not> no_errors (run_validators env self) \<Longrightarrow>
     validate env self =
       \<lparr>outcome = Inr False, form_after = run_validators env self, steps = [Field_Validators]\<rparr>"
  by (simp add: validate_def)

lemma validate_blank_secret:
  "no_errors (run_validators env self) \<Longrightarrow> strip (password_data self) = [] \<Longrightarrow>
     validate env self =
       \<lparr>outcome = Inr False,
        form_after = password_error (run_validators env self) ''PASSWORD NOT PROVIDED'',
        steps = [Field_Validators, Identifier_Presence, Secret_Presence]\<rparr>"
  by (simp add: validate_def no_errors_identifier)

lemma validate_lookup_raises:
  "no_errors (run_validators env self) \<Longrightarrow> strip (password_data self) \<noteq> [] \<Longrightarrow>
   get_user env (username_data self) = Inl e \<Longrightarrow>
     validate env self =
       \<lparr>outcome = Inl e, form_after = run_validators env self,
        steps = [Field_Validators, Identifier_Presence, Secret_Presence,
                 Identity_Resolution (username_data self)]\<rparr>"
  by (simp add: validate_def no_errors_identifier)

lemma validate_unknown:
  "no_errors (run_validators env self) \<Longrightarrow> strip (password_data self) \<noteq> [] \<Longrightarrow>
   get_user env (username_data self) = Inr None \<Longrightarrow>
     validate env self =
       \<lparr>outcome = Inr False,
        form_after = username_error ((run_validators env self)\<lparr>user := None\<rparr>)
                       ''INCORRECT USERNAME/PASSWORD'',
        steps = [Field_Validators, Identifier_Presence, Secret_Presence,
                 Identity_Resolution (username_data self)]\<rparr>"
  by (simp add: validate_def no_errors_identifier)

lemma validate_found:
  "no_errors (run_validators env self) \<Longrightarrow> strip (password_data self) \<noteq> [] \<Longrightarrow>
   get_user env (username_data self) = Inr (Some u) \<Longrightarrow>
     validate env self =
       password_checks env ((run_validators env self)\<lparr>user := Some u\<rparr>)
         [Field_Validators, Identifier_Presence, Secret_Presence,
          Identity_Resolution (username_data self)] u"
  by (simp add: validate_def no_errors_identifier)

text \<open>
  Every run of \<^verbatim>\<open>validate\<close> leaves by exactly one of ten exits; each case gives the
  conditions that lead to the exit and the run in full.
\<close>

lemma validate_cases
  [case_names invalid blank_secret lookup_raises unknown unset verify_raises wrong
     confirmation_raises disabled success]:
  obtains
    "\<not> no_errors (run_validators env self)"
    "validate env self =
       \<lparr>outcome = Inr False, form_after = run_validators env self, steps = [Field_Validators]\<rparr>"
  | "no_errors (run_validators env self)" "strip (password_data self) = []"
    "validate env self =
       \<lparr>outcome = Inr False,
        form_after = password_error (run_validators env self) ''PASSWORD NOT PROVIDED'',
        steps = [Field_Validators, Identifier_Presence, Secret_Presence]\<rparr>"
  | e where "no_errors (run_validators env self)" "strip (password_data self) \<noteq> []"
    "get_user env (username_data self) = Inl e"
    "validate env self =
       \<lparr>outcome = Inl e, form_after = run_validators env self,
        steps = [Field_Validators, Identifier_Presence, Secret_Presence,
                 Identity_Resolution (username_data self)]\<rparr>"
  | "no_errors (run_validators env self)" "strip (password_data self) \<noteq> []"
    "get_user env (username_data self) = Inr None"
    "validate env self =
       \<lparr>outcome = Inr False,
        form_after = username_error ((run_validators env self)\<lparr>user := None\<rparr>)
                       ''INCORRECT USERNAME/PASSWORD'',
        steps = [Field_Validators, Identifier_Presence, Secret_Presence,
                 Identity_Resolution (username_data self)]\<rparr>"
  | u where "no_errors (run_validators env self)" "strip (password_data self) \<noteq> []"
    "get_user env (username_data self) = Inr (Some u)" "\<not> truthy_str (password u)"
    "validate env self =
       \<lparr>outcome = Inr False,
        form_after = password_error ((run_validators env self)\<lparr>user := Some u\<rparr>)
                       ''PASSWORD WAS NOT SET'',
        steps = [Field_Validators, Identifier_Presence, Secret_Presence,
                 Identity_Resolution (username_data self), Secret_Hash_Presence u]\<rparr>"
  | u u' e where "no_errors (run_validators env self)" "strip (password_data self) \<noteq> []"
    "get_user env (username_data self) = Inr (Some u)" "truthy_str (password u)"
    "verify_and_update_password env (password_data self) u = (Inl e, u')"
    "validate env self =
       \<lparr>outcome = Inl e, form_after = (run_validators env self)\<lparr>user := Some u'\<rparr>,
        steps = [Field_Validators, Identifier_Presence, Secret_Presence,
                 Identity_Resolution (username_data self), Secret_Hash_Presence u,
                 Secret_Verification (password_data self) u]\<rparr>"
  | u u' where "no_errors (run_validators env self)" "strip (password_data self) \<noteq> []"
    "get_user env (username_data self) = Inr (Some u)" "truthy_str (password u)"
    "verify_and_update_password env (password_data self) u = (Inr False, u')"
    "validate env self =
       \<lparr>outcome = Inr False,
        form_after = password_error ((run_validators env self)\<lparr>user := Some u'\<rparr>)
                       ''INCORRECT USERNAME/PASSWORD'',
        steps = [Field_Validators, Identifier_Presence, Secret_Presence,
                 Identity_Resolution (username_data self), Secret_Hash_Presence u,
                 Secret_Verification (password_data self) u]\<rparr>"
  | u u' e where "no_errors (run_validators env self)" "strip (password_data self) \<noteq> []"
    "get_user env (username_data self) = Inr (Some u)" "truthy_str (password u)"
    "verify_and_update_password env (password_data self) u = (Inr True, u')"
    "requires_confirmation env u' = Inl e"
    "validate env self =
       \<lparr>outcome = Inl e, form_after = (run_validators env self)\<lparr>user := Some u'\<rparr>,
        steps = [Field_Validators, Identifier_Presence, Secret_Presence,
                 Identity_Resolution (username_data self), Secret_Hash_Presence u,
                 Secret_Verification (password_data self) u, Confirmation_Gate u']\<rparr>"
  | u u' where "no_errors (run_validators env self)" "strip (password_data self) \<noteq> []"
    "get_user env (username_data self) = Inr (Some u)" "truthy_str (password u)"
    "verify_and_update_password env (password_data self) u = (Inr True, u')"
    "requires_confirmation env u' = Inr False" "\<not> truthy_bool (is_active u')"
    "validate env self =
       \<lparr>outcome = Inr False,
        form_after = username_error ((run_validators env self)\<lparr>user := Some u'\<rparr>)
                       ''DISABLED ACCOUNT'',
        steps = [Field_Validators, Identifier_Presence, Secret_Presence,
                 Identity_Resolution (username_data self), Secret_Hash_Presence u,
                 Secret_Verification (password_data self) u, Confirmation_Gate u',
                 Activation_Gate u']\<rparr>"
  | u u' where "no_errors (run_validators env self)" "strip (password_data self) \<noteq> []"
    "get_user env (username_data self) = Inr (Some u)" "truthy_str (password u)"
    "verify_and_update_password env (password_data self) u = (Inr True, u')"
    "requires_confirmation env u' = Inr False" "truthy_bool (is_active u')"
    "validate env self =
       \<lparr>outcome = Inr True, form_after = (run_validators env self)\<lparr>user := Some u'\<rparr>,
        steps = [Field_Validators, Identifier_Presence, Secret_Presence,
                 Identity_Resolution (username_data self), Secret_Hash_Presence u,
                 Secret_Verification (password_data self) u, Confirmation_Gate u',
                 Activation_Gate u']\<rparr>"
proof (cases "no_errors (run_validators env self)")
  case False
  then show ?thesis using that(1) by (simp add: validate_invalid)
next
  case valid: True
  show ?thesis
  proof (cases "strip (password_data self) = []")
    case True
    then show ?thesis using valid that(2) by (simp add: validate_blank_secret)
  next
    case secret: False
    show ?thesis
    proof (cases "get_user env (username_data self)")
      case (Inl e)
      then show ?thesis using valid secret that(3) by (simp add: validate_lookup_raises)
    next
      case (Inr found)
      show ?thesis
      proof (cases found)
        case None
        then show ?thesis using valid secret Inr that(4) by (simp add: validate_unknown)
      next
        case (Some u)
        with Inr have found: "get_user env (username_data self) = Inr (Some u)" by simp
        note v = validate_found [OF valid secret found]
        show ?thesis
        proof (cases "truthy_str (password u)")
          case False
          then show ?thesis using valid secret found that(5) [of u]
            by (simp add: v password_checks_unset)
        next
          case hash: True
          obtain answer u' where
            called: "verify_and_update_password env (password_data self) u = (answer, u')"
            by (cases "verify_and_update_password env (password_data self) u")
          show ?thesis
          proof (cases answer)
            case (Inl e)
            with called
            have w: "verify_and_update_password env (password_data self) u = (Inl e, u')"
              by simp
            have "password_data ((run_validators env self)\<lparr>user := Some u\<rparr>) = password_data self"
              by simp
            then show ?thesis using valid secret found hash w that(6) [of u e u']
              by (simp add: v password_checks_raises)
          next
            case (Inr verified)
            show ?thesis
            proof (cases verified)
              case False
              with Inr called
              have w: "verify_and_update_password env (password_data self) u = (Inr False, u')"
                by simp
              show ?thesis using valid secret found hash w that(7) [of u u']
                by (simp add: v password_checks_wrong)
            next
              case True
              with Inr called
              have w: "verify_and_update_password env (password_data self) u = (Inr True, u')"
                by simp
              have p: "validate env self =
                  gates env ((run_validators env self)\<lparr>user := Some u'\<rparr>)
                    [Field_Validators, Identifier_Presence, Secret_Presence,
                     Identity_Resolution (username_data self), Secret_Hash_Presence u,
                     Secret_Verification (password_data self) u] u'"
                using hash w by (simp add: v password_checks_verified)
              show ?thesis
              proof (cases "requires_confirmation env u'")
                case (Inl e)
                then show ?thesis using valid secret found hash w that(8) [of u u' e]
                  by (simp add: p gates_raises)
              next
                case (Inr required)
                show ?thesis
                proof (cases required)
                  case True
                  with Inr show ?thesis using requires_confirmation_never_True [of env u']
                    by simp
                next
                  case False
                  with Inr have r: "requires_confirmation env u' = Inr False" by simp
                  show ?thesis
                  proof (cases "truthy_bool (is_active u')")
                    case False
                    then show ?thesis using valid secret found hash w r that(9) [of u u']
                      by (simp add: p gates_disabled)
                  next
                    case True
                    then show ?thesis using valid secret found hash w r that(10) [of u u']
                      by (simp add: p gates_active)
                  qed
                qed
              qed
            qed
          qed
        qed
      qed
    qed
  qed
qed

text \<open>
  The mapping of field errors, and \<^verbatim>\<open>self.user\<close>, after an exit.
\<close>

lemma fieldErrors_empty: "(fieldErrors self = []) = no_errors self"
  by (auto simp add: fieldErrors_def no_errors_def filter_empty_conv list_all_iff)

lemma fieldErrors_user [simp]: "fieldErrors (self\<lparr>user := found\<rparr>) = fieldErrors self"
  by (simp add: fieldErrors_def)

lemma no_errors_user [simp]: "no_errors (self\<lparr>user := found\<rparr>) = no_errors self"
  by (simp add: no_errors_def)

lemma fieldErrors_username_error:
  "no_errors self \<Longrightarrow> fieldErrors (username_error self msg) = [(''username'', [msg])]"
  by (auto simp add: fieldErrors_def no_errors_def username_error_def filter_empty_conv
      list_all_iff)

lemma fieldErrors_password_error:
  "no_errors self \<Longrightarrow> fieldErrors (password_error self msg) = [(''password'', [msg])]"
  by (auto simp add: fieldErrors_def no_errors_def password_error_def filter_empty_conv
      list_all_iff)

lemma user_username_error [simp]: "user (username_error self msg) = user self"
  by (simp add: username_error_def)

lemma user_password_error [simp]: "user (password_error self msg) = user self"
  by (simp add: password_error_def)

text \<open>
  Nothing after line 153 consults the directory: the run depends on \<open>get_user\<close> only
  through its answer for the submitted identifier.
\<close>

lemma gates_get_user: "gates (env\<lparr>get_user := g\<rparr>) self t u = gates env self t u"
  by (simp add: gates_def requires_confirmation_def Let_def split: sum.splits)

lemma password_checks_get_user:
  "password_checks (env\<lparr>get_user := g\<rparr>) self t u = password_checks env self t u"
  by (simp add: password_checks_def gates_get_user Let_def split: prod.splits sum.splits)

lemma run_validators_get_user:
  "run_validators (env\<lparr>get_user := g\<rparr>) self = run_validators env self"
  by (simp add: run_validators_def)

lemma validate_get_user:
  "g (username_data self) = get_user env (username_data self) \<Longrightarrow>
     validate (env\<lparr>get_user := g\<rparr>) self = validate env self"
  by (simp add: validate_def run_validators_get_user password_checks_get_user Let_def
      split: sum.splits option.splits)

text \<open>
  The definitions that the conditions of an exit are stated in.
\<close>

lemmas hypothesis_defs = run_validators_def no_errors_def Required_def
  requires_confirmation_def truthy_str_def truthy_bool_def is_active_def

section \<open>The claims about validate\<close>

subsection \<open>Blank identifier\<close>

text \<open>
  Claim C5. For every identifier that is empty or consists of whitespace only, and every
  secret, \<^verbatim>\<open>validate\<close> returns \<open>False\<close>, the identifier field carries an error, and no
  lookup is made. (The error is the one of \<^verbatim>\<open>Required()\<close>: the field validators of line 137
  reject such an identifier before line 142 is reached.)
\<close>

theorem blank_identifier_fails_before_lookup:
  assumes "\<forall>c\<in>set (username_data self). isspace c"
  shows "outcome (validate env self) = Inr False
       \<and> username_errors (form_after (validate env self)) \<noteq> []
       \<and> filter is_lookup (steps (validate env self)) = []"
proof -
  have "strip (username_data self) = []" using assms by (simp add: strip_empty_iff)
  then show ?thesis
    by (simp add: validate_def run_validators_def no_errors_def Required_def Let_def)
qed

text \<open>
  The identifier of two blanks, against the example directory.
\<close>

theorem blank_identifier_fails_before_lookup_witness:
  "list_all isspace (username_data (login ''  '' ''correct-pw''))
   \<and> outcome (validate directory (login ''  '' ''correct-pw'')) = Inr False
   \<and> username_errors (form_after (validate directory (login ''  '' ''correct-pw''))) \<noteq> []
   \<and> filter is_lookup (steps (validate directory (login ''  '' ''correct-pw''))) = []"
proof -
  have h: "\<forall>c\<in>set (username_data (login ''  '' ''correct-pw'')). isspace c"
    by (simp add: login_def isspace_def)
  show ?thesis
    using h blank_identifier_fails_before_lookup [OF h, of directory]
    by (simp add: list_all_iff)
qed

subsection \<open>The identifier that is looked up\<close>

text \<open>
  Claim C9. For every identifier that is not empty after stripping, the lookup receives
  the identifier as supplied, not stripped. Stated on what the directory answers: the run
  is the same for any two directories that answer alike for the identifier as supplied,
  whatever they answer for other names, its stripped form among them; and when the field
  validators pass and the secret is not blank the lookup is made, for if the directory
  raises for the identifier as supplied then \<^verbatim>\<open>validate\<close> raises the same, if it knows
  no such account the run fails with the message for that, and if it finds an account that
  account becomes \<^verbatim>\<open>self.user\<close>. The trace shows the one lookup with that argument.
\<close>

theorem lookup_receives_identifier_verbatim:
  assumes "strip (username_data self) \<noteq> []"
  shows "(g (username_data self) = get_user env (username_data self) \<longrightarrow>
            validate (env\<lparr>get_user := g\<rparr>) self = validate env self)
       \<and> (no_errors (run_validators env self) \<and> strip (password_data self) \<noteq> [] \<longrightarrow>
            (get_user env (username_data self) = Inl e \<longrightarrow>
               outcome (validate env self) = Inl e)
          \<and> (get_user env (username_data self) = Inr None \<longrightarrow>
               outcome (validate env self) = Inr False
               \<and> fieldErrors (form_after (validate env self)) =
                   [(''username'', [''INCORRECT USERNAME/PASSWORD''])])
          \<and> (get_user env (username_data self) = Inr (Some u) \<and> \<not> truthy_str (password u) \<longrightarrow>
               user (form_after (validate env self)) = Some u)
          \<and> filter is_lookup (steps (validate env self)) =
              [Identity_Resolution (username_data self)])"
proof -
  have independent: "g (username_data self) = get_user env (username_data self) \<longrightarrow>
      validate (env\<lparr>get_user := g\<rparr>) self = validate env self"
    by (simp add: validate_get_user)
  have called: "no_errors (run_validators env self) \<and> strip (password_data self) \<noteq> [] \<longrightarrow>
            (get_user env (username_data self) = Inl e \<longrightarrow>
               outcome (validate env self) = Inl e)
          \<and> (get_user env (username_data self) = Inr None \<longrightarrow>
               outcome (validate env self) = Inr False
               \<and> fieldErrors (form_after (validate env self)) =
                   [(''username'', [''INCORRECT USERNAME/PASSWORD''])])
          \<and> (get_user env (username_data self) = Inr (Some u) \<and> \<not> truthy_str (password u) \<longrightarrow>
               user (form_after (validate env self)) = Some u)
          \<and> filter is_lookup (steps (validate env self)) =
              [Identity_Resolution (username_data self)]"
    by (cases env self rule: validate_cases)
      (auto simp add: fieldErrors_username_error)
  from independent called show ?thesis by (rule conjI)
qed

text \<open>
  The identifier \<^verbatim>\<open>alice\<close> between two blanks, with the secret of \<open>alice\<close>: the
  directory knows \<^verbatim>\<open>alice\<close> but not the identifier with its blanks, and the login fails
  as for an unknown identifier; a directory that is down for exactly that identifier
  makes \<^verbatim>\<open>validate\<close> raise.
\<close>

theorem lookup_receives_identifier_verbatim_witness:
  "validate (directory\<lparr>get_user := (\<lambda>name. if name = '' alice '' then Inr None
                                             else Inr (Some alice))\<rparr>)
       (login '' alice '' ''correct-pw'') =
     validate directory (login '' alice '' ''correct-pw'')
   \<and> get_user directory ''alice'' = Inr (Some alice)
   \<and> outcome (validate directory (login '' alice '' ''correct-pw'')) = Inr False
   \<and> fieldErrors (form_after (validate directory (login '' alice '' ''correct-pw''))) =
       [(''username'', [''INCORRECT USERNAME/PASSWORD''])]
   \<and> outcome (validate (lookup_down '' alice '') (login '' alice '' ''correct-pw'')) =
       Inl (LibraryError ''connection'')
   \<and> user (form_after (validate directory (login ''dave'' ''correct-pw''))) = Some dave"
proof -
  let ?L = "login '' alice '' ''correct-pw''"
  let ?D = "login ''dave'' ''correct-pw''"
  let ?g = "\<lambda>name. if name = '' alice '' then Inr None else Inr (Some alice)"
  have id: "strip (username_data ?L) \<noteq> []" "strip (username_data ?D) \<noteq> []"
    by (simp_all add: fixture_defs)
  have reach: "no_errors (run_validators directory ?L) \<and> strip (password_data ?L) \<noteq> []"
    "no_errors (run_validators (lookup_down '' alice '') ?L) \<and> strip (password_data ?L) \<noteq> []"
    "no_errors (run_validators directory ?D) \<and> strip (password_data ?D) \<noteq> []"
    by (simp_all add: hypothesis_defs fixture_defs lookup_down_def)
  have answers: "?g (username_data ?L) = get_user directory (username_data ?L)"
    "get_user directory (username_data ?L) = Inr None"
    "get_user (lookup_down '' alice '') (username_data ?L) = Inl (LibraryError ''connection'')"
    "get_user directory (username_data ?D) = Inr (Some dave) \<and> \<not> truthy_str (password dave)"
    "get_user directory ''alice'' = Inr (Some alice)"
    by (simp_all add: hypothesis_defs fixture_defs lookup_down_def)
  show ?thesis
    using reach answers
      lookup_receives_identifier_verbatim [OF id(1), where env = directory and g = ?g]
      lookup_receives_identifier_verbatim [OF id(1), where env = "lookup_down '' alice ''"
        and e = "LibraryError ''connection''"]
      lookup_receives_identifier_verbatim [OF id(2), where env = directory and u = dave]
    by simp
qed

subsection \<open>Errors and outcome\<close>

text \<open>
  Claim C7. Whenever \<^verbatim>\<open>validate\<close> returns, the mapping of field errors is non-empty
  if and only if it returned \<open>False\<close>.
\<close>

theorem errors_iff_failed:
  assumes "outcome (validate env self) = Inr succeeded"
  shows "(fieldErrors (form_after (validate env self)) \<noteq> []) = (succeeded = False)"
proof (cases env self rule: validate_cases)
  case invalid
  with assms show ?thesis by (auto simp add: fieldErrors_empty)
next
  case blank_secret
  with assms show ?thesis by (auto simp add: fieldErrors_password_error)
next
  case (lookup_raises e)
  with assms show ?thesis by simp
next
  case unknown
  with assms show ?thesis by (auto simp add: fieldErrors_username_error)
next
  case (unset u)
  with assms show ?thesis by (auto simp add: fieldErrors_password_error)
next
  case (verify_raises u u' e)
  with assms show ?thesis by simp
next
  case (wrong u u')
  with assms show ?thesis by (auto simp add: fieldErrors_password_error)
next
  case (confirmation_raises u u' e)
  with assms show ?thesis by simp
next
  case (disabled u u')
  with assms show ?thesis by (auto simp add: fieldErrors_username_error)
next
  case (success u u')
  with assms show ?thesis by (auto simp add: fieldErrors_empty)
qed

text \<open>
  A disabled account and an active one, both with the correct secret.
\<close>

theorem errors_iff_failed_witness:
  "outcome (validate directory (login ''carol'' ''correct-pw'')) = Inr False
   \<and> fieldErrors (form_after (validate directory (login ''carol'' ''correct-pw''))) \<noteq> []
   \<and> outcome (validate directory (login ''alice'' ''correct-pw'')) = Inr True
   \<and> fieldErrors (form_after (validate directory (login ''alice'' ''correct-pw''))) = []"
proof -
  have c: "outcome (validate directory (login ''carol'' ''correct-pw'')) = Inr False"
    by (simp add: validate_defs fixture_defs)
  have a: "outcome (validate directory (login ''alice'' ''correct-pw'')) = Inr True"
    by (simp add: validate_defs fixture_defs)
  show ?thesis
    using c a errors_iff_failed [OF c] errors_iff_failed [OF a] by simp
qed

subsection \<open>Order of the checks\<close>




subsection \<open>Unknown identifier and wrong secret\<close>

text \<open>
  Claim C1, as amended. An identifier that resolves to no account and an identifier whose
  account rejects the supplied secret both make \<^verbatim>\<open>validate\<close> return \<open>False\<close> with the
  same message text, \<^verbatim>\<open>INCORRECT USERNAME/PASSWORD\<close>; the first records it on the
  \<^verbatim>\<open>username\<close> field (line 157), the second on the \<^verbatim>\<open>password\<close> field (line 167).
\<close>

theorem unknown_and_wrong_secret_same_text:
  assumes "no_errors (run_validators env self1)" "strip (password_data self1) \<noteq> []"
    and "get_user env (username_data self1) = Inr None"
    and "no_errors (run_validators env self2)" "strip (password_data self2) \<noteq> []"
    and "get_user env (username_data self2) = Inr (Some u)" "truthy_str (password u)"
    and "verify_and_update_password env (password_data self2) u = (Inr False, u')"
  shows "outcome (validate env self1) = Inr False
       \<and> outcome (validate env self2) = Inr False
       \<and> fieldErrors (form_after (validate env self1)) =
           [(''username'', [''INCORRECT USERNAME/PASSWORD''])]
       \<and> fieldErrors (form_after (validate env self2)) =
           [(''password'', [''INCORRECT USERNAME/PASSWORD''])]"
proof -
  have 1: "validate env self1 =
      \<lparr>outcome = Inr False,
       form_after = username_error ((run_validators env self1)\<lparr>user := None\<rparr>)
                      ''INCORRECT USERNAME/PASSWORD'',
       steps = [Field_Validators, Identifier_Presence, Secret_Presence,
                Identity_Resolution (username_data self1)]\<rparr>"
    using assms(1-3) by (rule validate_unknown)
  have 2: "validate env self2 =
      \<lparr>outcome = Inr False,
       form_after = password_error ((run_validators env self2)\<lparr>user := Some u'\<rparr>)
                      ''INCORRECT USERNAME/PASSWORD'',
       steps = [Field_Validators, Identifier_Presence, Secret_Presence,
                Identity_Resolution (username_data self2), Secret_Hash_Presence u,
                Secret_Verification (password_data self2) u]\<rparr>"
    using assms(7,8) by (simp add: validate_found [OF assms(4-6)] password_checks_wrong)
  show ?thesis
    using assms(1,4)
    by (simp add: 1 2 fieldErrors_username_error fieldErrors_password_error)
qed

text \<open>
  The unknown \<^verbatim>\<open>bob\<close> and \<^verbatim>\<open>alice\<close> with a wrong secret.
\<close>

theorem unknown_and_wrong_secret_same_text_witness:
  "outcome (validate directory (login ''bob'' ''anything'')) = Inr False
   \<and> outcome (validate directory (login ''alice'' ''wrong-pw'')) = Inr False
   \<and> fieldErrors (form_after (validate directory (login ''bob'' ''anything''))) =
       [(''username'', [''INCORRECT USERNAME/PASSWORD''])]
   \<and> fieldErrors (form_after (validate directory (login ''alice'' ''wrong-pw''))) =
       [(''password'', [''INCORRECT USERNAME/PASSWORD''])]"
proof -
  have "no_errors (run_validators directory (login ''bob'' ''anything''))"
    and "strip (password_data (login ''bob'' ''anything'')) \<noteq> []"
    and "get_user directory (username_data (login ''bob'' ''anything'')) = Inr None"
    and "no_errors (run_validators directory (login ''alice'' ''wrong-pw''))"
    and "strip (password_data (login ''alice'' ''wrong-pw'')) \<noteq> []"
    and "get_user directory (username_data (login ''alice'' ''wrong-pw'')) = Inr (Some alice)"
    and "truthy_str (password alice)"
    and "verify_and_update_password directory (password_data (login ''alice'' ''wrong-pw''))
           alice = (Inr False, alice)"
    by (simp_all add: hypothesis_defs fixture_defs)
  then show ?thesis by (rule unknown_and_wrong_secret_same_text)
qed

text \<open>
  Claim C1 as stated has both messages on the identifier field. In the example directory
  the wrong secret leaves the \<^verbatim>\<open>username\<close> field without any message.
\<close>

theorem unknown_and_wrong_secret_fields_differ:
  "fieldErrors (form_after (validate directory (login ''bob'' ''anything''))) =
     [(''username'', [''INCORRECT USERNAME/PASSWORD''])]
   \<and> fieldErrors (form_after (validate directory (login ''alice'' ''wrong-pw''))) =
     [(''password'', [''INCORRECT USERNAME/PASSWORD''])]
   \<and> username_errors (form_after (validate directory (login ''alice'' ''wrong-pw''))) = []"
  by (simp add: validate_defs fixture_defs fieldErrors_def)

subsection \<open>The resolved account\<close>

text \<open>
  Claim C3, as amended. If \<^verbatim>\<open>validate\<close> returns \<open>True\<close> then \<^verbatim>\<open>self.user\<close> is set: it is the
  account that the lookup returned, as \<open>verify_and_update_password\<close> left it. The converse
  does not hold: \<^verbatim>\<open>self.user\<close> is assigned at the lookup (line 153) and never cleared, so
  every run that gets past the lookup leaves it set, whatever it returns.
\<close>

theorem success_leaves_user_set:
  "(outcome (validate env self) = Inr True \<longrightarrow>
      (\<exists>u u'. get_user env (username_data self) = Inr (Some u)
         \<and> verify_and_update_password env (password_data self) u = (Inr True, u')
         \<and> user (form_after (validate env self)) = Some u'))
   \<and> (\<forall>u. Secret_Hash_Presence u \<in> set (steps (validate env self)) \<longrightarrow>
         user (form_after (validate env self)) \<noteq> None)"
  by (cases env self rule: validate_cases) auto

text \<open>
  A successful login, and a disabled account whose validation fails with \<^verbatim>\<open>self.user\<close>
  set.
\<close>

theorem success_leaves_user_set_witness:
  "outcome (validate directory (login ''alice'' ''correct-pw'')) = Inr True
   \<and> user (form_after (validate directory (login ''alice'' ''correct-pw''))) \<noteq> None
   \<and> Secret_Hash_Presence carol \<in> set (steps (validate directory (login ''carol'' ''correct-pw'')))
   \<and> outcome (validate directory (login ''carol'' ''correct-pw'')) = Inr False
   \<and> user (form_after (validate directory (login ''carol'' ''correct-pw''))) \<noteq> None"
proof -
  have a: "outcome (validate directory (login ''alice'' ''correct-pw'')) = Inr True"
    by (simp add: validate_defs fixture_defs)
  have c: "Secret_Hash_Presence carol
             \<in> set (steps (validate directory (login ''carol'' ''correct-pw'')))"
    by (simp add: validate_defs fixture_defs)
  have f: "outcome (validate directory (login ''carol'' ''correct-pw'')) = Inr False"
    by (simp add: validate_defs fixture_defs)
  show ?thesis
    using a c f success_leaves_user_set [of directory "login ''alice'' ''correct-pw''"]
      success_leaves_user_set [of directory "login ''carol'' ''correct-pw''"]
    by auto
qed

text \<open>
  Claim C3 as stated has \<^verbatim>\<open>self.user\<close> unset after a wrong secret. It is \<open>alice\<close>.
\<close>

theorem failed_validation_keeps_user:
  "outcome (validate directory (login ''alice'' ''wrong-pw'')) = Inr False
   \<and> user (form_after (validate directory (login ''alice'' ''wrong-pw''))) = Some alice"
  by (simp add: validate_defs fixture_defs)

subsection \<open>Verification and rehash\<close>

text \<open>
  Claim C8, as amended. Take an account that the lookup returns and that has a stored
  hash. If \<open>verify_and_update_password\<close> (the library call that verifies the secret and,
  when the stored hash is outdated, rehashes and stores it) reports a match, and the
  account as that call leaves it needs no confirmation and is active, then \<^verbatim>\<open>validate\<close>
  returns \<open>True\<close>, has called \<open>verify_and_update_password\<close> exactly once, with the
  supplied secret and that account, and \<^verbatim>\<open>self.user\<close> is the account as the call left it.
  If the call raises, \<^verbatim>\<open>validate\<close> raises the same exception: nothing handles it, and
  \<^verbatim>\<open>self.user\<close> is the account as the call left it.
\<close>

theorem matching_secret_is_verified_once:
  assumes "no_errors (run_validators env self)" "strip (password_data self) \<noteq> []"
    and "get_user env (username_data self) = Inr (Some u)" "truthy_str (password u)"
  shows "(verify_and_update_password env (password_data self) u = (Inr True, u')
          \<and> requires_confirmation env u' = Inr False \<and> truthy_bool (is_active u') \<longrightarrow>
            outcome (validate env self) = Inr True
            \<and> filter is_verification (steps (validate env self)) =
                [Secret_Verification (password_data self) u]
            \<and> user (form_after (validate env self)) = Some u')
       \<and> (verify_and_update_password env (password_data self) u = (Inl e, u') \<longrightarrow>
            outcome (validate env self) = Inl e
            \<and> filter is_verification (steps (validate env self)) =
                [Secret_Verification (password_data self) u]
            \<and> user (form_after (validate env self)) = Some u')"
  using assms
  by (auto simp add: validate_found password_checks_verified password_checks_raises
      gates_active)

text \<open>
  \<open>alice\<close> with an outdated hash, and \<open>alice\<close> when storing the fresh hash raises.
\<close>

theorem matching_secret_is_verified_once_witness:
  "outcome (validate outdated (login ''alice'' ''correct-pw'')) = Inr True
   \<and> filter is_verification (steps (validate outdated (login ''alice'' ''correct-pw''))) =
       [Secret_Verification ''correct-pw'' alice]
   \<and> user (form_after (validate outdated (login ''alice'' ''correct-pw''))) =
       Some (alice\<lparr>password := Some ''$2b$13$fresh''\<rparr>)
   \<and> outcome (validate store_fails (login ''alice'' ''correct-pw'')) = Inl (LibraryError ''put'')"
proof -
  let ?L = "login ''alice'' ''correct-pw''"
  let ?fresh = "alice\<lparr>password := Some ''$2b$13$fresh''\<rparr>"
  have 1: "no_errors (run_validators outdated ?L)" "strip (password_data ?L) \<noteq> []"
    "get_user outdated (username_data ?L) = Inr (Some alice)" "truthy_str (password alice)"
    by (simp_all add: hypothesis_defs fixture_defs outdated_def)
  have 2: "no_errors (run_validators store_fails ?L)"
    "get_user store_fails (username_data ?L) = Inr (Some alice)"
    by (simp_all add: hypothesis_defs fixture_defs store_fails_def)
  have 3: "verify_and_update_password outdated (password_data ?L) alice = (Inr True, ?fresh)"
    "requires_confirmation outdated ?fresh = Inr False"
    "truthy_bool (is_active ?fresh)"
    "verify_and_update_password store_fails (password_data ?L) alice =
       (Inl (LibraryError ''put''), ?fresh)"
    "password_data ?L = ''correct-pw''"
    by (simp_all add: hypothesis_defs fixture_defs outdated_def store_fails_def)
  show ?thesis
    using 3
      matching_secret_is_verified_once [OF 1, where u' = ?fresh]
      matching_secret_is_verified_once [OF 2(1) 1(2) 2(2) 1(4), where u' = ?fresh
        and e = "LibraryError ''put''"]
    by simp
qed

text \<open>
  Claim C8 as stated promises \<open>True\<close> for every account whose outdated hash matches,
  whether or not the rehash fails. The disabled \<open>carol\<close> gets \<open>False\<close>, and a failing
  store surfaces as an exception.
\<close>

theorem matching_secret_can_still_fail:
  "verify_and_update_password outdated ''correct-pw'' carol =
     (Inr True, carol\<lparr>password := Some ''$2b$13$fresh''\<rparr>)
   \<and> outcome (validate outdated (login ''carol'' ''correct-pw'')) = Inr False
   \<and> outcome (validate store_fails (login ''alice'' ''correct-pw'')) = Inl (LibraryError ''put'')"
  by (simp add: validate_defs fixture_defs outdated_def store_fails_def)

subsection \<open>The confirmation gate\<close>

text \<open>
  Claim C2 says that \<^verbatim>\<open>validate\<close> never raises for an expected outcome, an unconfirmed
  account among them. The comment of line 170 names the case: confirmation is enabled and
  the user has not confirmed. With confirmation enabled, \<open>alice\<close> with the correct secret
  makes line 171 raise \<^verbatim>\<open>AttributeError\<close>: \<^verbatim>\<open>requires_confirmation\<close> reads
  \<^verbatim>\<open>user.confirmed_at\<close>, and line 92 leaves \<open>User\<close> without that column.
\<close>

theorem unconfirmed_account_raises:
  "confirmable confirming \<and> \<not> login_without_confirmation confirming
   \<and> outcome (validate confirming (login ''alice'' ''correct-pw'')) =
       Inl (AttributeError ''User'' ''confirmed_at'')"
  by (simp add: validate_defs fixture_defs confirming_def)

text \<open>
  Claim C4 says that an account awaiting confirmation, with its correct secret, gets
  \<open>False\<close> and a confirmation-required message. With confirmation enabled, the run for
  \<open>carol\<close> does not return \<open>False\<close>, and no field carries any message.
\<close>

theorem confirmation_gate_records_no_message:
  "requires_confirmation confirming carol = Inl (AttributeError ''User'' ''confirmed_at'')
   \<and> outcome (validate confirming (login ''carol'' ''correct-pw'')) \<noteq> Inr False
   \<and> fieldErrors (form_after (validate confirming (login ''carol'' ''correct-pw''))) = []"
  by (simp add: validate_defs fixture_defs confirming_def fieldErrors_def)

section \<open>The claim about run_query\<close>

text \<open>
  Claim C10. For every query type and every arguments, \<^verbatim>\<open>run_query\<close> raises
  \<^verbatim>\<open>NameError\<close> for the name \<^verbatim>\<open>getdb\<close>, which the module never binds (it defines
  \<^verbatim>\<open>get_db\<close>); no connection is opened and no statement is executed.
\<close>

theorem run_query_raises_NameError:
  "run_query dbase query_type args = Inl (NameError ''getdb'')"
  by (simp add: run_query_def load_global_def module_globals_def)

text \<open>
  A database that would answer, a known query type and one argument.
\<close>

theorem run_query_raises_NameError_witness:
  "run_query
     \<lparr>call_global = (\<lambda>name. Inr ()),
      queries = [''stores'' \<mapsto> ''SELECT name FROM store WHERE id = %(id)s''],
      execute = (\<lambda>statement args. Inr ([''name''], [[PyStr ''Tampa'']])),
      format_2f = (\<lambda>v. ''1.00'')\<rparr>
     ''stores'' [(''id'', PyStr ''7'')] = Inl (NameError ''getdb'')"
  by (rule run_query_raises_NameError)

end
